theory Spec2Isabelle
  imports Main
begin

section \<open>The Polly API client (src/api/client/polly_client.py)\<close>

text \<open>
  The client is a class with two fields, \<open>base_url\<close> and \<open>token\<close>, and eight
  methods. Each method other than \<open>set_token\<close> builds one request, hands it to the
  \<open>requests\<close> library, calls \<open>raise_for_status\<close> on the response and, except for
  \<open>delete_poll\<close>, returns \<open>response.json()\<close>.

  The embedding threads a \<open>world\<close> through every method: the client object and the
  list of requests handed to the library so far. What the library does with a request
  (raise a transport exception or give back a response) is a function of the
  environment, so that a theorem holds for every server.
\<close>

subsection \<open>Python values\<close>

text \<open>
  The values the client handles: \<open>None\<close> and what \<open>response.json()\<close> can give back.
  A float is carried by its \<open>repr\<close> text, which determines it; a dict is the list of
  its items.
\<close>

datatype pyval =
    PNone
  | PBool bool
  | PInt int
  | PFloat string
  | PStr string
  | PList "pyval list"
  | PDict "(string \<times> pyval) list"

text \<open>Python's truth value, as \<open>if not self.token\<close> tests it.\<close>

fun truthy :: "pyval \<Rightarrow> bool" where
  "truthy PNone = False"
| "truthy (PBool b) = b"
| "truthy (PInt i) = (i \<noteq> 0)"
| "truthy (PFloat r) = (r \<noteq> ''0.0'' \<and> r \<noteq> ''-0.0'')"
| "truthy (PStr s) = (s \<noteq> [])"
| "truthy (PList xs) = (xs \<noteq> [])"
| "truthy (PDict kvs) = (kvs \<noteq> [])"

text \<open>Decimal text of an integer, as an f-string renders an \<open>int\<close>.\<close>

definition digit_char :: "nat \<Rightarrow> char" where
  "digit_char d = char_of (48 + d)"

fun str_nat :: "nat \<Rightarrow> string" where
  "str_nat n = (if n < 10 then [digit_char n] else str_nat (n div 10) @ [digit_char (n mod 10)])"

declare str_nat.simps [simp del]

definition str_int :: "int \<Rightarrow> string" where
  "str_int i = (if i < 0 then CHR ''-'' # str_nat (nat (- i)) else str_nat (nat i))"

subsection \<open>Requests, responses, exceptions\<close>

datatype verb = GET | POST | DELETE

datatype payload =
    NoBody
  | FormData "(string \<times> pyval) list"
  | JsonBody pyval

text \<open>
  One call of \<open>requests.get\<close>, \<open>requests.post\<close> or \<open>requests.delete\<close>: the URL and
  the keyword arguments \<open>headers\<close>, \<open>params\<close> and \<open>data\<close> or \<open>json\<close>. A keyword
  that the call does not pass is the empty list, or \<open>NoBody\<close>.
\<close>

record request =
  verb :: verb
  url :: string
  headers :: "(string \<times> string) list"
  params :: "(string \<times> pyval) list"
  payload :: payload

text \<open>
  A response object: its status code, its body, and what its \<open>json()\<close> method gives
  back (\<open>None\<close> when the body is not JSON and the method raises).
\<close>

record response =
  status_code :: int
  body :: string
  json :: "pyval option"

datatype exn =
    ValueError string
  | HTTPError response
  | JSONDecodeError
  | KeyError string
  | TypeError
  | RequestException string

text \<open>What the library does with a request: it raises, or it returns a response.\<close>

datatype reply = Failed string | Replied response

text \<open>
  The environment of a call: the library's answer to each request, and the text that
  Python's \<open>str\<close> gives for a list or a dict (the \<open>repr\<close> of its elements, which the
  client never inspects).
\<close>

record env =
  send :: "request \<Rightarrow> reply"
  str_container :: "pyval \<Rightarrow> string"

record client =
  base_url :: string
  token :: pyval

record world =
  client :: client
  sent :: "request list"

text \<open>\<open>str(v)\<close>, as an f-string applies it to the value it interpolates.\<close>

definition py_str :: "env \<Rightarrow> pyval \<Rightarrow> string" where
  "py_str e v =
     (case v of
        PNone \<Rightarrow> ''None''
      | PBool b \<Rightarrow> (if b then ''True'' else ''False'')
      | PInt i \<Rightarrow> str_int i
      | PFloat r \<Rightarrow> r
      | PStr s \<Rightarrow> s
      | PList xs \<Rightarrow> str_container e v
      | PDict kvs \<Rightarrow> str_container e v)"

text \<open>
  \<open>Response.raise_for_status\<close> belongs to the \<open>requests\<close> library. It raises an
  \<open>HTTPError\<close> holding the response exactly for a status code from 400 to 599; the
  source says so where it calls it ("Raise an exception for 4XX/5XX responses").
\<close>

definition raise_for_status :: "response \<Rightarrow> exn option" where
  "raise_for_status r =
     (if 400 \<le> status_code r \<and> status_code r < 600 then Some (HTTPError r) else None)"

text \<open>\<open>response.json()\<close>: the decoded body, or a \<open>JSONDecodeError\<close>.\<close>

definition json_method :: "response \<Rightarrow> exn + pyval" where
  "json_method r = (case json r of None \<Rightarrow> Inl JSONDecodeError | Some v \<Rightarrow> Inr v)"

text \<open>
  \<open>d[key]\<close> for a string key: the value of a dict, a \<open>KeyError\<close> when the dict lacks
  the key, a \<open>TypeError\<close> for every other JSON value.
\<close>

definition subscript :: "pyval \<Rightarrow> string \<Rightarrow> exn + pyval" where
  "subscript d k =
     (case d of
        PDict kvs \<Rightarrow> (case map_of kvs k of None \<Rightarrow> Inl (KeyError k) | Some v \<Rightarrow> Inr v)
      | _ \<Rightarrow> Inl TypeError)"

text \<open>Handing a request to the library: it is recorded, and the library answers.\<close>

definition http :: "env \<Rightarrow> request \<Rightarrow> world \<Rightarrow> (exn + response) \<times> world" where
  "http e req w =
     (case send e req of
        Failed name \<Rightarrow> (Inl (RequestException name), w\<lparr>sent := sent w @ [req]\<rparr>)
      | Replied r \<Rightarrow> (Inr r, w\<lparr>sent := sent w @ [req]\<rparr>))"

definition requests_post ::
  "env \<Rightarrow> string \<Rightarrow> (string \<times> string) list \<Rightarrow> payload \<Rightarrow> world \<Rightarrow> (exn + response) \<times> world" where
  "requests_post e u hs p w =
     http e \<lparr>verb = POST, url = u, headers = hs, params = [], payload = p\<rparr> w"

definition requests_get ::
  "env \<Rightarrow> string \<Rightarrow> (string \<times> pyval) list \<Rightarrow> world \<Rightarrow> (exn + response) \<times> world" where
  "requests_get e u ps w =
     http e \<lparr>verb = GET, url = u, headers = [], params = ps, payload = NoBody\<rparr> w"

definition requests_delete ::
  "env \<Rightarrow> string \<Rightarrow> (string \<times> string) list \<Rightarrow> world \<Rightarrow> (exn + response) \<times> world" where
  "requests_delete e u hs w =
     http e \<lparr>verb = DELETE, url = u, headers = hs, params = [], payload = NoBody\<rparr> w"

subsection \<open>The methods of PollyClient\<close>

text \<open>\<open>__init__\<close>: the base URL defaults to the local development server.\<close>

definition init :: "string option \<Rightarrow> world" where
  "init b =
     \<lparr>client = \<lparr>base_url = (case b of None \<Rightarrow> ''http://localhost:8000'' | Some u \<Rightarrow> u),
                token = PNone\<rparr>,
      sent = []\<rparr>"

definition set_token :: "pyval \<Rightarrow> world \<Rightarrow> world" where
  "set_token t w = w\<lparr>client := (client w)\<lparr>token := t\<rparr>\<rparr>"

definition auth_required :: string where
  "auth_required = ''Authentication token is required. Please login first.''"

definition login :: "env \<Rightarrow> string \<Rightarrow> string \<Rightarrow> world \<Rightarrow> (exn + pyval) \<times> world" where
  "login e username password w =
     (let u = base_url (client w) @ ''/login'' in
      case requests_post e u []
             (FormData [(''username'', PStr username), (''password'', PStr password)]) w of
        (Inl x, w') \<Rightarrow> (Inl x, w')
      | (Inr resp, w') \<Rightarrow>
          (case raise_for_status resp of
             Some x \<Rightarrow> (Inl x, w')
           | None \<Rightarrow>
               (case json_method resp of
                  Inl x \<Rightarrow> (Inl x, w')
                | Inr token_data \<Rightarrow>
                    (case subscript token_data ''access_token'' of
                       Inl x \<Rightarrow> (Inl x, w')
                     | Inr t \<Rightarrow> (Inr token_data, set_token t w')))))"

definition vote_on_poll :: "env \<Rightarrow> int \<Rightarrow> int \<Rightarrow> world \<Rightarrow> (exn + pyval) \<times> world" where
  "vote_on_poll e poll_id option_id w =
     (if \<not> truthy (token (client w)) then (Inl (ValueError auth_required), w)
      else
        let u = base_url (client w) @ ''/polls/'' @ str_int poll_id @ ''/vote'';
            hs = [(''Authorization'', ''Bearer '' @ py_str e (token (client w))),
                  (''Content-Type'', ''application/json'')];
            p = PDict [(''option_id'', PInt option_id)]
        in case requests_post e u hs (JsonBody p) w of
             (Inl x, w') \<Rightarrow> (Inl x, w')
           | (Inr resp, w') \<Rightarrow>
               (case raise_for_status resp of
                  Some x \<Rightarrow> (Inl x, w')
                | None \<Rightarrow> (json_method resp, w')))"

text \<open>\<open>skip\<close> and \<open>limit\<close> are keyword arguments with defaults 0 and 10.\<close>

definition get_polls :: "env \<Rightarrow> int option \<Rightarrow> int option \<Rightarrow> world \<Rightarrow> (exn + pyval) \<times> world" where
  "get_polls e skip limit w =
     (let s = (case skip of None \<Rightarrow> 0 | Some i \<Rightarrow> i);
          l = (case limit of None \<Rightarrow> 10 | Some i \<Rightarrow> i);
          u = base_url (client w) @ ''/polls'';
          ps = [(''skip'', PInt s), (''limit'', PInt l)]
      in case requests_get e u ps w of
           (Inl x, w') \<Rightarrow> (Inl x, w')
         | (Inr resp, w') \<Rightarrow>
             (case raise_for_status resp of
                Some x \<Rightarrow> (Inl x, w')
              | None \<Rightarrow> (json_method resp, w')))"

definition get_poll :: "env \<Rightarrow> int \<Rightarrow> world \<Rightarrow> (exn + pyval) \<times> world" where
  "get_poll e poll_id w =
     (let u = base_url (client w) @ ''/polls/'' @ str_int poll_id
      in case requests_get e u [] w of
           (Inl x, w') \<Rightarrow> (Inl x, w')
         | (Inr resp, w') \<Rightarrow>
             (case raise_for_status resp of
                Some x \<Rightarrow> (Inl x, w')
              | None \<Rightarrow> (json_method resp, w')))"

definition get_poll_results :: "env \<Rightarrow> int \<Rightarrow> world \<Rightarrow> (exn + pyval) \<times> world" where
  "get_poll_results e poll_id w =
     (let u = base_url (client w) @ ''/polls/'' @ str_int poll_id @ ''/results''
      in case requests_get e u [] w of
           (Inl x, w') \<Rightarrow> (Inl x, w')
         | (Inr resp, w') \<Rightarrow>
             (case raise_for_status resp of
                Some x \<Rightarrow> (Inl x, w')
              | None \<Rightarrow> (json_method resp, w')))"

definition create_poll :: "env \<Rightarrow> string \<Rightarrow> pyval list \<Rightarrow> world \<Rightarrow> (exn + pyval) \<times> world" where
  "create_poll e question options w =
     (if \<not> truthy (token (client w)) then (Inl (ValueError auth_required), w)
      else
        let u = base_url (client w) @ ''/polls'';
            hs = [(''Authorization'', ''Bearer '' @ py_str e (token (client w))),
                  (''Content-Type'', ''application/json'')];
            p = PDict [(''question'', PStr question), (''options'', PList options)]
        in case requests_post e u hs (JsonBody p) w of
             (Inl x, w') \<Rightarrow> (Inl x, w')
           | (Inr resp, w') \<Rightarrow>
               (case raise_for_status resp of
                  Some x \<Rightarrow> (Inl x, w')
                | None \<Rightarrow> (json_method resp, w')))"

text \<open>\<open>delete_poll\<close> ends after \<open>raise_for_status\<close>: it returns \<open>None\<close>.\<close>

definition delete_poll :: "env \<Rightarrow> int \<Rightarrow> world \<Rightarrow> (exn + pyval) \<times> world" where
  "delete_poll e poll_id w =
     (if \<not> truthy (token (client w)) then (Inl (ValueError auth_required), w)
      else
        let u = base_url (client w) @ ''/polls/'' @ str_int poll_id;
            hs = [(''Authorization'', ''Bearer '' @ py_str e (token (client w)))]
        in case requests_delete e u hs w of
             (Inl x, w') \<Rightarrow> (Inl x, w')
           | (Inr resp, w') \<Rightarrow>
               (case raise_for_status resp of
                  Some x \<Rightarrow> (Inl x, w')
                | None \<Rightarrow> (Inr PNone, w')))"

subsection \<open>Calls\<close>

text \<open>One call of a method, so that a statement can range over all of them.\<close>

datatype call =
    SetToken pyval
  | Login string string
  | VoteOnPoll int int
  | GetPolls "int option" "int option"
  | GetPoll int
  | GetPollResults int
  | CreatePoll string "pyval list"
  | DeletePoll int

fun exec :: "env \<Rightarrow> call \<Rightarrow> world \<Rightarrow> (exn + pyval) \<times> world" where
  "exec e (SetToken t) w = (Inr PNone, set_token t w)"
| "exec e (Login username password) w = login e username password w"
| "exec e (VoteOnPoll poll_id option_id) w = vote_on_poll e poll_id option_id w"
| "exec e (GetPolls skip limit) w = get_polls e skip limit w"
| "exec e (GetPoll poll_id) w = get_poll e poll_id w"
| "exec e (GetPollResults poll_id) w = get_poll_results e poll_id w"
| "exec e (CreatePoll question options) w = create_poll e question options w"
| "exec e (DeletePoll poll_id) w = delete_poll e poll_id w"

fun authenticated :: "call \<Rightarrow> bool" where
  "authenticated (VoteOnPoll poll_id option_id) = True"
| "authenticated (CreatePoll question options) = True"
| "authenticated (DeletePoll poll_id) = True"
| "authenticated c = False"

fun unauthenticated_get :: "call \<Rightarrow> bool" where
  "unauthenticated_get (GetPolls skip limit) = True"
| "unauthenticated_get (GetPoll poll_id) = True"
| "unauthenticated_get (GetPollResults poll_id) = True"
| "unauthenticated_get c = False"

fun changes_token :: "call \<Rightarrow> bool" where
  "changes_token (SetToken t) = True"
| "changes_token (Login username password) = True"
| "changes_token c = False"

text \<open>A mock server: the same response to every request.\<close>

definition always :: "response \<Rightarrow> request \<Rightarrow> reply" where
  "always r req = Replied r"

definition no_container_text :: "pyval \<Rightarrow> string" where
  "no_container_text v = []"

definition mock :: "response \<Rightarrow> env" where
  "mock r = \<lparr>send = always r, str_container = no_container_text\<rparr>"

subsection \<open>Sample clients and servers\<close>

text \<open>The responses and clients at which the theorems below are instantiated.\<close>

definition ok_empty :: response where
  "ok_empty = \<lparr>status_code = 200, body = ''{}'', json = Some (PDict [])\<rparr>"

definition no_content :: response where
  "no_content = \<lparr>status_code = 204, body = [], json = None\<rparr>"

definition not_found :: response where
  "not_found = \<lparr>status_code = 404, body = ''Not Found'', json = None\<rparr>"

definition unauthorized :: response where
  "unauthorized = \<lparr>status_code = 401, body = ''Unauthorized'', json = None\<rparr>"

definition server_error :: response where
  "server_error = \<lparr>status_code = 500, body = ''Internal Server Error'', json = None\<rparr>"

definition multiple_choices :: response where
  "multiple_choices = \<lparr>status_code = 300, body = ''[1, 2]'', json = Some (PList [PInt 1, PInt 2])\<rparr>"

definition polls_page :: response where
  "polls_page = \<lparr>status_code = 200, body = ''[]'', json = Some (PList [])\<rparr>"

definition vote_created :: response where
  "vote_created = \<lparr>status_code = 200, body = ''[7]'', json = Some (PList [PInt 7])\<rparr>"

definition token_items :: "(string \<times> pyval) list" where
  "token_items = [(''access_token'', PStr ''tok123''), (''token_type'', PStr ''bearer'')]"

definition token_issued :: response where
  \<open>token_issued =
     \<lparr>status_code = 200,
      body = ''{"access_token": "tok123", "token_type": "bearer"}'',
      json = Some (PDict token_items)\<rparr>\<close>

definition fresh :: world where
  "fresh = init None"

definition logged_in :: world where
  "logged_in = set_token (PStr ''tok123'') (init None)"

definition empty_token :: world where
  "empty_token = set_token (PStr []) (init None)"

section \<open>Properties\<close>

subsection \<open>Auxiliary facts\<close>

lemma http_eq:
  "http e req w =
     (case send e req of Failed name \<Rightarrow> Inl (RequestException name) | Replied r \<Rightarrow> Inr r,
      w\<lparr>sent := sent w @ [req]\<rparr>)"
  by (simp add: http_def split: reply.splits)

lemmas op_defs = login_def vote_on_poll_def get_polls_def get_poll_def get_poll_results_def
  create_poll_def delete_poll_def requests_post_def requests_get_def requests_delete_def
  http_eq set_token_def Let_def

lemmas op_splits = reply.splits option.splits sum.splits if_splits

lemma json_method_not_http: "json_method r \<noteq> Inl (HTTPError x)"
  by (simp add: json_method_def split: option.splits)

lemma json_method_not_value: "json_method r \<noteq> Inl (ValueError m)"
  by (simp add: json_method_def split: option.splits)

lemma subscript_not_http: "subscript d k \<noteq> Inl (HTTPError x)"
  by (simp add: subscript_def split: pyval.splits option.splits)

lemma login_sent:
  "sent (snd (login e username password w)) =
     sent w @ [\<lparr>verb = POST, url = base_url (client w) @ ''/login'', headers = [], params = [],
                payload = FormData [(''username'', PStr username), (''password'', PStr password)]\<rparr>]"
  by (simp add: op_defs split: op_splits)

lemma vote_on_poll_sent:
  "sent (snd (vote_on_poll e poll_id option_id w)) =
     (if truthy (token (client w))
      then sent w @ [\<lparr>verb = POST,
                       url = base_url (client w) @ ''/polls/'' @ str_int poll_id @ ''/vote'',
                       headers = [(''Authorization'', ''Bearer '' @ py_str e (token (client w))),
                                  (''Content-Type'', ''application/json'')],
                       params = [],
                       payload = JsonBody (PDict [(''option_id'', PInt option_id)])\<rparr>]
      else sent w)"
  by (simp add: op_defs split: op_splits)

lemma get_polls_sent:
  "sent (snd (get_polls e skip limit w)) =
     sent w @ [\<lparr>verb = GET, url = base_url (client w) @ ''/polls'', headers = [],
                params = [(''skip'', PInt (case skip of None \<Rightarrow> 0 | Some i \<Rightarrow> i)),
                          (''limit'', PInt (case limit of None \<Rightarrow> 10 | Some i \<Rightarrow> i))],
                payload = NoBody\<rparr>]"
  by (simp add: op_defs raise_for_status_def split: reply.splits)

lemma get_poll_sent:
  "sent (snd (get_poll e poll_id w)) =
     sent w @ [\<lparr>verb = GET, url = base_url (client w) @ ''/polls/'' @ str_int poll_id,
                headers = [], params = [], payload = NoBody\<rparr>]"
  by (simp add: op_defs split: op_splits)

lemma get_poll_results_sent:
  "sent (snd (get_poll_results e poll_id w)) =
     sent w @ [\<lparr>verb = GET,
                url = base_url (client w) @ ''/polls/'' @ str_int poll_id @ ''/results'',
                headers = [], params = [], payload = NoBody\<rparr>]"
  by (simp add: op_defs split: op_splits)

lemma create_poll_sent:
  "sent (snd (create_poll e question options w)) =
     (if truthy (token (client w))
      then sent w @ [\<lparr>verb = POST, url = base_url (client w) @ ''/polls'',
                       headers = [(''Authorization'', ''Bearer '' @ py_str e (token (client w))),
                                  (''Content-Type'', ''application/json'')],
                       params = [],
                       payload = JsonBody (PDict [(''question'', PStr question),
                                                  (''options'', PList options)])\<rparr>]
      else sent w)"
  by (simp add: op_defs split: op_splits)

lemma delete_poll_sent:
  "sent (snd (delete_poll e poll_id w)) =
     (if truthy (token (client w))
      then sent w @ [\<lparr>verb = DELETE, url = base_url (client w) @ ''/polls/'' @ str_int poll_id,
                       headers = [(''Authorization'', ''Bearer '' @ py_str e (token (client w)))],
                       params = [], payload = NoBody\<rparr>]
      else sent w)"
  by (simp add: op_defs split: op_splits)

lemmas sent_simps = login_sent vote_on_poll_sent get_polls_sent get_poll_sent
  get_poll_results_sent create_poll_sent delete_poll_sent

lemma str_int_samples:
  "str_int 1 = ''1''" "str_int 5 = ''5''" "str_int 42 = ''42''" "str_int 999 = ''999''"
  by code_simp+

lemma py_str_PStr: "py_str e (PStr s) = s"
  by (simp add: py_str_def)

lemmas sample_defs = ok_empty_def no_content_def not_found_def unauthorized_def
  server_error_def multiple_choices_def polls_page_def vote_created_def token_items_def
  token_issued_def fresh_def logged_in_def empty_token_def mock_def always_def init_def
  set_token_def

subsection \<open>C1: the authentication guard\<close>

text \<open>
  C1, as the code has it. For each of \<open>vote_on_poll\<close>, \<open>create_poll\<close> and
  \<open>delete_poll\<close>, the call raises the \<open>ValueError\<close> with the fixed message exactly
  when the token is falsy in Python's sense (\<open>if not self.token\<close>): \<open>None\<close>, the empty
  string, or another falsy value that a login stored. In that case the world is returned
  as it was: no request has been handed to the library.
\<close>

theorem auth_guard:
  "authenticated c \<Longrightarrow>
   ((fst (exec e c w) = Inl (ValueError auth_required)) = (\<not> truthy (token (client w)))) \<and>
   (\<not> truthy (token (client w)) \<longrightarrow> snd (exec e c w) = w)"
  by (cases c)
     (auto simp: op_defs Let_def raise_for_status_def json_method_not_value
           split: op_splits)

text \<open>
  With no token set, \<open>create_poll\<close> raises the \<open>ValueError\<close> and sends nothing.
\<close>

theorem auth_guard_witness:
  "authenticated (CreatePoll ''Best color?'' [PStr ''Red'', PStr ''Blue'']) \<and>
   \<not> truthy (token (client fresh)) \<and>
   fst (exec (mock ok_empty) (CreatePoll ''Best color?'' [PStr ''Red'', PStr ''Blue'']) fresh) =
     Inl (ValueError auth_required) \<and>
   snd (exec (mock ok_empty) (CreatePoll ''Best color?'' [PStr ''Red'', PStr ''Blue'']) fresh) =
     fresh"
proof -
  have a: "authenticated (CreatePoll ''Best color?'' [PStr ''Red'', PStr ''Blue''])"
    by simp
  have f: "\<not> truthy (token (client fresh))"
    by (simp add: sample_defs)
  show ?thesis
    using a f
      auth_guard [OF a, of "mock ok_empty" fresh]
    by simp
qed

text \<open>
  The guard is not a test against \<open>None\<close>: after \<open>set_token("")\<close> the token is not
  \<open>None\<close>, and \<open>vote_on_poll(42, 7)\<close> still raises the \<open>ValueError\<close>.
\<close>

theorem empty_token_counterexample:
  "token (client empty_token) \<noteq> PNone \<and>
   exec (mock ok_empty) (VoteOnPoll 42 7) empty_token =
     (Inl (ValueError auth_required), empty_token)"
  by (simp add: sample_defs vote_on_poll_def)

subsection \<open>C2: login\<close>

text \<open>
  C2. For every username and password, \<open>login\<close> hands exactly one request to the
  library: a POST to \<open>base_url + "/login"\<close> whose form data are the fields \<open>username\<close>
  and \<open>password\<close>, with no headers of the client's own. When the answer has a 2xx
  status and its body decodes to an object with an \<open>access_token\<close> entry, \<open>login\<close>
  returns the whole decoded body and the client's token is that entry's value; the base
  URL is the same.
\<close>

theorem login_stores_token:
  "sent (snd (login e username password w)) =
     sent w @ [\<lparr>verb = POST, url = base_url (client w) @ ''/login'', headers = [], params = [],
                payload = FormData [(''username'', PStr username), (''password'', PStr password)]\<rparr>] \<and>
   (send e \<lparr>verb = POST, url = base_url (client w) @ ''/login'', headers = [], params = [],
            payload = FormData [(''username'', PStr username), (''password'', PStr password)]\<rparr>
      = Replied r \<and>
    200 \<le> status_code r \<and> status_code r < 300 \<and>
    json r = Some (PDict kvs) \<and> map_of kvs ''access_token'' = Some t \<longrightarrow>
    fst (login e username password w) = Inr (PDict kvs) \<and>
    client (snd (login e username password w)) = \<lparr>base_url = base_url (client w), token = t\<rparr>)"
  by (simp add: login_sent)
     (simp add: op_defs raise_for_status_def json_method_def subscript_def)

text \<open>
  \<open>login("alice", "secret")\<close> on a fresh client, answered with a token record.
\<close>

theorem login_stores_token_witness:
  "send (mock token_issued)
     \<lparr>verb = POST, url = ''http://localhost:8000/login'', headers = [], params = [],
      payload = FormData [(''username'', PStr ''alice''), (''password'', PStr ''secret'')]\<rparr>
     = Replied token_issued \<and>
   200 \<le> status_code token_issued \<and> status_code token_issued < 300 \<and>
   json token_issued = Some (PDict token_items) \<and>
   map_of token_items ''access_token'' = Some (PStr ''tok123'') \<and>
   sent (snd (login (mock token_issued) ''alice'' ''secret'' fresh)) =
     [\<lparr>verb = POST, url = ''http://localhost:8000/login'', headers = [], params = [],
       payload = FormData [(''username'', PStr ''alice''), (''password'', PStr ''secret'')]\<rparr>] \<and>
   fst (login (mock token_issued) ''alice'' ''secret'' fresh) = Inr (PDict token_items) \<and>
   client (snd (login (mock token_issued) ''alice'' ''secret'' fresh)) =
     \<lparr>base_url = ''http://localhost:8000'', token = PStr ''tok123''\<rparr>"
proof -
  have b: "base_url (client fresh) = ''http://localhost:8000''" "sent fresh = []"
    by (simp_all add: sample_defs)
  have h: "send (mock token_issued)
     \<lparr>verb = POST, url = ''http://localhost:8000/login'', headers = [], params = [],
      payload = FormData [(''username'', PStr ''alice''), (''password'', PStr ''secret'')]\<rparr>
     = Replied token_issued"
    "200 \<le> status_code token_issued" "status_code token_issued < 300"
    "json token_issued = Some (PDict token_items)"
    "map_of token_items ''access_token'' = Some (PStr ''tok123'')"
    by (simp_all add: sample_defs)
  show ?thesis
    using h b
      login_stores_token [of "mock token_issued" "''alice''" "''secret''" fresh token_issued
        token_items "PStr ''tok123''"]
    by simp
qed

subsection \<open>C3: HTTP errors\<close>

text \<open>
  C3. For every call that hands a request to the library: when the answer to that request
  is a response with a status from 400 to 599, the call raises the \<open>HTTPError\<close> that
  holds this very response (its status code and its body), the request is the only one
  the call has sent, and the client is as before.
\<close>

theorem http_error_raised:
  assumes "sent (snd (exec e c w)) \<noteq> sent w"
    and "send e (last (sent (snd (exec e c w)))) = Replied r"
    and "400 \<le> status_code r" and "status_code r < 600"
  shows "exec e c w = (Inl (HTTPError r), w\<lparr>sent := sent w @ [last (sent (snd (exec e c w)))]\<rparr>)"
proof (cases c)
  case (SetToken t)
  with assms(1) show ?thesis by (simp add: set_token_def)
next
  case (Login u p)
  with assms show ?thesis
    by (simp add: sent_simps) (simp add: op_defs raise_for_status_def)
next
  case (VoteOnPoll a b)
  with assms show ?thesis
    by (simp add: sent_simps split: if_splits) (simp add: op_defs raise_for_status_def)
next
  case (GetPolls s l)
  with assms show ?thesis
    by (simp add: sent_simps) (simp add: op_defs raise_for_status_def)
next
  case (GetPoll a)
  with assms show ?thesis
    by (simp add: sent_simps) (simp add: op_defs raise_for_status_def)
next
  case (GetPollResults a)
  with assms show ?thesis
    by (simp add: sent_simps) (simp add: op_defs raise_for_status_def)
next
  case (CreatePoll q os)
  with assms show ?thesis
    by (simp add: sent_simps split: if_splits) (simp add: op_defs raise_for_status_def)
next
  case (DeletePoll a)
  with assms show ?thesis
    by (simp add: sent_simps split: if_splits) (simp add: op_defs raise_for_status_def)
qed

text \<open>
  \<open>get_poll(999)\<close> against a 404 response.
\<close>

theorem http_error_raised_witness:
  "sent (snd (exec (mock not_found) (GetPoll 999) fresh)) \<noteq> sent fresh \<and>
   send (mock not_found) (last (sent (snd (exec (mock not_found) (GetPoll 999) fresh)))) =
     Replied not_found \<and>
   400 \<le> status_code not_found \<and> status_code not_found < 600 \<and>
   status_code not_found = 404 \<and>
   exec (mock not_found) (GetPoll 999) fresh =
     (Inl (HTTPError not_found),
      fresh\<lparr>sent := [\<lparr>verb = GET, url = ''http://localhost:8000/polls/999'', headers = [],
                         params = [], payload = NoBody\<rparr>]\<rparr>)"
proof -
  have b: "base_url (client fresh) = ''http://localhost:8000''" "sent fresh = []"
    by (simp_all add: sample_defs)
  have s: "sent (snd (exec (mock not_found) (GetPoll 999) fresh)) =
      [\<lparr>verb = GET, url = ''http://localhost:8000/polls/999'', headers = [],
        params = [], payload = NoBody\<rparr>]"
    by (simp add: get_poll_sent b str_int_samples)
  have h1: "sent (snd (exec (mock not_found) (GetPoll 999) fresh)) \<noteq> sent fresh"
    by (simp only: s b) simp
  have h2: "send (mock not_found)
      (last (sent (snd (exec (mock not_found) (GetPoll 999) fresh)))) = Replied not_found"
    by (simp add: mock_def always_def)
  have h3: "400 \<le> status_code not_found" "status_code not_found < 600"
    "status_code not_found = 404"
    by (simp_all add: not_found_def)
  show ?thesis
    using h1 h2 h3 http_error_raised [OF h1 h2 h3(1) h3(2)]
    by (simp only: s b) simp
qed

subsection \<open>C4: vote_on_poll\<close>

text \<open>
  C4. With a token that passes the guard of \<open>vote_on_poll\<close> (set and not empty), for
  every \<open>poll_id\<close> and \<open>option_id\<close> the call hands exactly one request to the
  library: a POST to \<open>base_url + "/polls/{poll_id}/vote"\<close> with the JSON body
  \<open>{"option_id": option_id}\<close> and the headers \<open>Authorization: Bearer <token>\<close> and
  \<open>Content-Type: application/json\<close>. When the answer has a 2xx status and its body
  decodes, the call returns the decoded body, and the client is as before.
\<close>

theorem vote_on_poll_request:
  assumes "truthy (token (client w))"
  shows "sent (snd (vote_on_poll e poll_id option_id w)) =
           sent w @ [\<lparr>verb = POST,
                      url = base_url (client w) @ ''/polls/'' @ str_int poll_id @ ''/vote'',
                      headers = [(''Authorization'', ''Bearer '' @ py_str e (token (client w))),
                                 (''Content-Type'', ''application/json'')],
                      params = [],
                      payload = JsonBody (PDict [(''option_id'', PInt option_id)])\<rparr>] \<and>
         (send e \<lparr>verb = POST,
                  url = base_url (client w) @ ''/polls/'' @ str_int poll_id @ ''/vote'',
                  headers = [(''Authorization'', ''Bearer '' @ py_str e (token (client w))),
                             (''Content-Type'', ''application/json'')],
                  params = [],
                  payload = JsonBody (PDict [(''option_id'', PInt option_id)])\<rparr> = Replied r \<and>
          200 \<le> status_code r \<and> status_code r < 300 \<and> json r = Some v \<longrightarrow>
          fst (vote_on_poll e poll_id option_id w) = Inr v \<and>
          client (snd (vote_on_poll e poll_id option_id w)) = client w)"
  using assms
  by (simp add: vote_on_poll_sent)
     (simp add: op_defs raise_for_status_def json_method_def)

text \<open>
  \<open>vote_on_poll(42, 7)\<close> with the token \<open>tok123\<close>.
\<close>

theorem vote_on_poll_request_witness:
  "truthy (token (client logged_in)) \<and>
   send (mock vote_created)
     \<lparr>verb = POST, url = ''http://localhost:8000/polls/42/vote'',
      headers = [(''Authorization'', ''Bearer tok123''),
                 (''Content-Type'', ''application/json'')],
      params = [], payload = JsonBody (PDict [(''option_id'', PInt 7)])\<rparr> =
     Replied vote_created \<and>
   200 \<le> status_code vote_created \<and> status_code vote_created < 300 \<and>
   json vote_created = Some (PList [PInt 7]) \<and>
   sent (snd (vote_on_poll (mock vote_created) 42 7 logged_in)) =
     [\<lparr>verb = POST, url = ''http://localhost:8000/polls/42/vote'',
       headers = [(''Authorization'', ''Bearer tok123''),
                  (''Content-Type'', ''application/json'')],
       params = [], payload = JsonBody (PDict [(''option_id'', PInt 7)])\<rparr>] \<and>
   fst (vote_on_poll (mock vote_created) 42 7 logged_in) = Inr (PList [PInt 7]) \<and>
   client (snd (vote_on_poll (mock vote_created) 42 7 logged_in)) = client logged_in"
proof -
  have b: "base_url (client logged_in) = ''http://localhost:8000''" "sent logged_in = []"
    "token (client logged_in) = PStr ''tok123''"
    by (simp_all add: sample_defs)
  have t: "truthy (token (client logged_in))"
    by (simp add: b)
  have h: "send (mock vote_created)
     \<lparr>verb = POST, url = ''http://localhost:8000/polls/42/vote'',
      headers = [(''Authorization'', ''Bearer tok123''),
                 (''Content-Type'', ''application/json'')],
      params = [], payload = JsonBody (PDict [(''option_id'', PInt 7)])\<rparr> =
     Replied vote_created"
    "200 \<le> status_code vote_created" "status_code vote_created < 300"
    "json vote_created = Some (PList [PInt 7])"
    by (simp_all add: sample_defs)
  show ?thesis
    using t h
      vote_on_poll_request [OF t, of "mock vote_created" 42 7 vote_created "PList [PInt 7]"]
    by (simp add: b str_int_samples py_str_PStr)
qed

subsection \<open>C5: get_polls\<close>

text \<open>
  C5. \<open>get_polls\<close> without \<open>skip\<close> means \<open>skip = 0\<close>, without \<open>limit\<close> means
  \<open>limit = 10\<close>. For every \<open>skip\<close> and \<open>limit\<close>, whatever their sign or size, the
  call hands exactly one request to the library: a GET to \<open>base_url + "/polls"\<close> with
  these two values as the query parameters and no headers. When the answer has a 2xx
  status and its body decodes, the call returns the decoded body.
\<close>

theorem get_polls_request:
  "get_polls e None None w = get_polls e (Some 0) (Some 10) w \<and>
   get_polls e (Some s) None w = get_polls e (Some s) (Some 10) w \<and>
   get_polls e None (Some l) w = get_polls e (Some 0) (Some l) w \<and>
   sent (snd (get_polls e (Some s) (Some l) w)) =
     sent w @ [\<lparr>verb = GET, url = base_url (client w) @ ''/polls'', headers = [],
                params = [(''skip'', PInt s), (''limit'', PInt l)], payload = NoBody\<rparr>] \<and>
   (send e \<lparr>verb = GET, url = base_url (client w) @ ''/polls'', headers = [],
            params = [(''skip'', PInt s), (''limit'', PInt l)], payload = NoBody\<rparr> = Replied r \<and>
    200 \<le> status_code r \<and> status_code r < 300 \<and> json r = Some v \<longrightarrow>
    fst (get_polls e (Some s) (Some l) w) = Inr v)"
  by (simp add: get_polls_sent)
     (simp add: op_defs raise_for_status_def json_method_def)

text \<open>
  \<open>get_polls()\<close> and \<open>get_polls(skip=20, limit=5)\<close> on a fresh client.
\<close>

theorem get_polls_request_witness:
  "send (mock polls_page)
     \<lparr>verb = GET, url = ''http://localhost:8000/polls'', headers = [],
      params = [(''skip'', PInt 20), (''limit'', PInt 5)], payload = NoBody\<rparr> =
     Replied polls_page \<and>
   200 \<le> status_code polls_page \<and> status_code polls_page < 300 \<and>
   json polls_page = Some (PList []) \<and>
   sent (snd (get_polls (mock polls_page) None None fresh)) =
     [\<lparr>verb = GET, url = ''http://localhost:8000/polls'', headers = [],
       params = [(''skip'', PInt 0), (''limit'', PInt 10)], payload = NoBody\<rparr>] \<and>
   sent (snd (get_polls (mock polls_page) (Some 20) (Some 5) fresh)) =
     [\<lparr>verb = GET, url = ''http://localhost:8000/polls'', headers = [],
       params = [(''skip'', PInt 20), (''limit'', PInt 5)], payload = NoBody\<rparr>] \<and>
   fst (get_polls (mock polls_page) (Some 20) (Some 5) fresh) = Inr (PList [])"
proof -
  have b: "base_url (client fresh) = ''http://localhost:8000''" "sent fresh = []"
    by (simp_all add: sample_defs)
  have h: "send (mock polls_page)
     \<lparr>verb = GET, url = ''http://localhost:8000/polls'', headers = [],
      params = [(''skip'', PInt 20), (''limit'', PInt 5)], payload = NoBody\<rparr> =
     Replied polls_page"
    "200 \<le> status_code polls_page" "status_code polls_page < 300"
    "json polls_page = Some (PList [])"
    by (simp_all add: sample_defs)
  show ?thesis
    using h
      get_polls_request [of "mock polls_page" fresh 20 5 polls_page "PList []"]
      get_polls_request [of "mock polls_page" fresh 0 10 polls_page "PList []"]
    by (simp add: b)
qed

subsection \<open>C6: delete_poll\<close>

text \<open>
  C6. With a token that passes the guard of \<open>delete_poll\<close> (set and not empty), for
  every \<open>poll_id\<close> the call hands exactly one request to the library: a DELETE to
  \<open>base_url + "/polls/{poll_id}"\<close> with the header \<open>Authorization: Bearer <token>\<close>.
  When the answer has a 2xx status, the call returns \<open>None\<close> and raises nothing; the
  body is not decoded.
\<close>

theorem delete_poll_returns_none:
  assumes "truthy (token (client w))"
  shows "sent (snd (delete_poll e poll_id w)) =
           sent w @ [\<lparr>verb = DELETE, url = base_url (client w) @ ''/polls/'' @ str_int poll_id,
                      headers = [(''Authorization'', ''Bearer '' @ py_str e (token (client w)))],
                      params = [], payload = NoBody\<rparr>] \<and>
         (send e \<lparr>verb = DELETE, url = base_url (client w) @ ''/polls/'' @ str_int poll_id,
                  headers = [(''Authorization'', ''Bearer '' @ py_str e (token (client w)))],
                  params = [], payload = NoBody\<rparr> = Replied r \<and>
          200 \<le> status_code r \<and> status_code r < 300 \<longrightarrow>
          fst (delete_poll e poll_id w) = Inr PNone)"
  using assms
  by (simp add: delete_poll_sent)
     (simp add: op_defs raise_for_status_def)

text \<open>
  \<open>delete_poll(5)\<close> against a 204 response with an empty body.
\<close>

theorem delete_poll_returns_none_witness:
  "truthy (token (client logged_in)) \<and>
   send (mock no_content)
     \<lparr>verb = DELETE, url = ''http://localhost:8000/polls/5'',
      headers = [(''Authorization'', ''Bearer tok123'')],
      params = [], payload = NoBody\<rparr> = Replied no_content \<and>
   200 \<le> status_code no_content \<and> status_code no_content < 300 \<and>
   sent (snd (delete_poll (mock no_content) 5 logged_in)) =
     [\<lparr>verb = DELETE, url = ''http://localhost:8000/polls/5'',
       headers = [(''Authorization'', ''Bearer tok123'')],
       params = [], payload = NoBody\<rparr>] \<and>
   fst (delete_poll (mock no_content) 5 logged_in) = Inr PNone"
proof -
  have b: "base_url (client logged_in) = ''http://localhost:8000''" "sent logged_in = []"
    "token (client logged_in) = PStr ''tok123''"
    by (simp_all add: sample_defs)
  have t: "truthy (token (client logged_in))"
    by (simp add: b)
  have h: "send (mock no_content)
     \<lparr>verb = DELETE, url = ''http://localhost:8000/polls/5'',
      headers = [(''Authorization'', ''Bearer tok123'')],
      params = [], payload = NoBody\<rparr> = Replied no_content"
    "200 \<le> status_code no_content" "status_code no_content < 300"
    by (simp_all add: sample_defs)
  show ?thesis
    using t h
      delete_poll_returns_none [OF t, of "mock no_content" 5 no_content]
    by (simp add: b str_int_samples py_str_PStr)
qed

subsection \<open>C7: which statuses raise\<close>

text \<open>
  C7, as the code has it. For every call that hands a request to the library and gets a
  response, the call raises an \<open>HTTPError\<close> exactly when the status is from 400 to 599.
  A status outside 2xx that is also outside 400 to 599 (a 3xx one, for instance) raises
  no \<open>HTTPError\<close>.
\<close>

theorem status_decides_http_error:
  assumes "sent (snd (exec e c w)) \<noteq> sent w"
    and "send e (last (sent (snd (exec e c w)))) = Replied r"
  shows "(\<exists>x. fst (exec e c w) = Inl (HTTPError x)) = (400 \<le> status_code r \<and> status_code r < 600)"
proof (cases c)
  case (SetToken t)
  with assms(1) show ?thesis by (simp add: set_token_def)
next
  case (Login u p)
  with assms show ?thesis
    by (simp add: sent_simps)
       (auto simp: op_defs raise_for_status_def json_method_not_http subscript_not_http
             split: sum.splits)
next
  case (VoteOnPoll a b)
  with assms show ?thesis
    by (simp add: sent_simps split: if_splits)
       (auto simp: op_defs raise_for_status_def json_method_not_http)
next
  case (GetPolls s l)
  with assms show ?thesis
    by (simp add: sent_simps)
       (auto simp: op_defs raise_for_status_def json_method_not_http)
next
  case (GetPoll a)
  with assms show ?thesis
    by (simp add: sent_simps)
       (auto simp: op_defs raise_for_status_def json_method_not_http)
next
  case (GetPollResults a)
  with assms show ?thesis
    by (simp add: sent_simps)
       (auto simp: op_defs raise_for_status_def json_method_not_http)
next
  case (CreatePoll q os)
  with assms show ?thesis
    by (simp add: sent_simps split: if_splits)
       (auto simp: op_defs raise_for_status_def json_method_not_http)
next
  case (DeletePoll a)
  with assms show ?thesis
    by (simp add: sent_simps split: if_splits)
       (auto simp: op_defs raise_for_status_def)
qed

text \<open>
  \<open>delete_poll(5)\<close> against a 500 response.
\<close>

theorem status_decides_http_error_witness:
  "sent (snd (exec (mock server_error) (DeletePoll 5) logged_in)) \<noteq> sent logged_in \<and>
   send (mock server_error)
     (last (sent (snd (exec (mock server_error) (DeletePoll 5) logged_in)))) =
     Replied server_error \<and>
   (\<exists>x. fst (exec (mock server_error) (DeletePoll 5) logged_in) = Inl (HTTPError x)) \<and>
   400 \<le> status_code server_error \<and> status_code server_error < 600"
proof -
  have b: "sent logged_in = []" "token (client logged_in) = PStr ''tok123''"
    by (simp_all add: sample_defs)
  have h1: "sent (snd (exec (mock server_error) (DeletePoll 5) logged_in)) \<noteq> sent logged_in"
    by (simp add: delete_poll_sent b)
  have h2: "send (mock server_error)
      (last (sent (snd (exec (mock server_error) (DeletePoll 5) logged_in)))) =
      Replied server_error"
    by (simp add: mock_def always_def)
  have h3: "400 \<le> status_code server_error \<and> status_code server_error < 600"
    by (simp add: server_error_def)
  show ?thesis
    using h1 h2 h3 status_decides_http_error [OF h1 h2]
    by (simp only: simp_thms)
qed

text \<open>
  A 3xx response does not make the call raise: \<open>get_polls()\<close> against a 300 response
  whose body is a JSON list returns that list.
\<close>

theorem redirect_status_counterexample:
  "status_code multiple_choices = 300 \<and>
   \<not> (200 \<le> status_code multiple_choices \<and> status_code multiple_choices < 300) \<and>
   fst (exec (mock multiple_choices) (GetPolls None None) fresh) = Inr (PList [PInt 1, PInt 2])"
  by (simp add: sample_defs op_defs raise_for_status_def json_method_def)

subsection \<open>C8: what a call changes in the client\<close>

text \<open>
  C8. No call changes \<open>base_url\<close>. A call other than \<open>set_token\<close> and \<open>login\<close>
  leaves the whole client (\<open>base_url\<close> and \<open>token\<close>) as it was, and so does every
  call that raises: the token changes only in \<open>set_token\<close> and in a \<open>login\<close> that
  returns.
\<close>

theorem client_frame:
  "base_url (client (snd (exec e c w))) = base_url (client w) \<and>
   (\<not> changes_token c \<longrightarrow> client (snd (exec e c w)) = client w) \<and>
   (isl (fst (exec e c w)) \<longrightarrow> client (snd (exec e c w)) = client w)"
  by (cases c)
     (auto simp: op_defs Let_def raise_for_status_def
           split: op_splits)

text \<open>
  \<open>get_poll(999)\<close> against a 404 response, on a client that holds a token.
\<close>

theorem client_frame_witness:
  "\<not> changes_token (GetPoll 999) \<and>
   isl (fst (exec (mock not_found) (GetPoll 999) logged_in)) \<and>
   base_url (client (snd (exec (mock not_found) (GetPoll 999) logged_in))) =
     ''http://localhost:8000'' \<and>
   client (snd (exec (mock not_found) (GetPoll 999) logged_in)) = client logged_in"
proof -
  have b: "base_url (client logged_in) = ''http://localhost:8000''"
    by (simp add: sample_defs)
  have c: "\<not> changes_token (GetPoll 999)"
    by simp
  have i: "isl (fst (exec (mock not_found) (GetPoll 999) logged_in))"
    by (simp add: sample_defs op_defs raise_for_status_def)
  show ?thesis
    using c i client_frame [of "mock not_found" "GetPoll 999" logged_in]
    by (simp add: b)
qed

subsection \<open>C9: a failed login\<close>

text \<open>
  C9. When the answer to the request of \<open>login\<close> has a status from 400 to 599,
  \<open>login\<close> raises the \<open>HTTPError\<close> and the client's token is the one it had before
  the call.
\<close>

theorem failed_login_keeps_token:
  assumes "send e \<lparr>verb = POST, url = base_url (client w) @ ''/login'', headers = [], params = [],
             payload = FormData [(''username'', PStr username), (''password'', PStr password)]\<rparr>
           = Replied r"
    and "400 \<le> status_code r" and "status_code r < 600"
  shows "fst (login e username password w) = Inl (HTTPError r) \<and>
         token (client (snd (login e username password w))) = token (client w)"
  using assms by (simp add: op_defs raise_for_status_def)

text \<open>
  A login rejected with 401 on a client that holds the token \<open>tok123\<close>.
\<close>

theorem failed_login_keeps_token_witness:
  "send (mock unauthorized)
     \<lparr>verb = POST, url = ''http://localhost:8000/login'', headers = [], params = [],
      payload = FormData [(''username'', PStr ''alice''), (''password'', PStr ''wrong'')]\<rparr>
     = Replied unauthorized \<and>
   400 \<le> status_code unauthorized \<and> status_code unauthorized < 600 \<and>
   fst (login (mock unauthorized) ''alice'' ''wrong'' logged_in) = Inl (HTTPError unauthorized) \<and>
   token (client (snd (login (mock unauthorized) ''alice'' ''wrong'' logged_in))) =
     PStr ''tok123''"
proof -
  have b: "base_url (client logged_in) = ''http://localhost:8000''"
    "token (client logged_in) = PStr ''tok123''"
    by (simp_all add: sample_defs)
  have h: "send (mock unauthorized)
     \<lparr>verb = POST, url = base_url (client logged_in) @ ''/login'', headers = [], params = [],
      payload = FormData [(''username'', PStr ''alice''), (''password'', PStr ''wrong'')]\<rparr>
     = Replied unauthorized"
    "400 \<le> status_code unauthorized" "status_code unauthorized < 600"
    by (simp_all add: mock_def always_def unauthorized_def)
  show ?thesis
    using h failed_login_keeps_token [OF h]
    by (simp add: b)
qed

subsection \<open>C10: the unauthenticated calls ignore the token\<close>

text \<open>
  C10. For \<open>get_polls\<close>, \<open>get_poll\<close> and \<open>get_poll_results\<close>, and two worlds whose
  clients have the same \<open>base_url\<close> (their tokens may differ): against the same
  environment both calls return the same result, both hand the same single request to
  the library, that request has no headers (so no \<open>Authorization\<close> header), and both
  clients are as before.
\<close>

theorem unauthenticated_ignores_token:
  assumes "unauthenticated_get c" and "base_url (client w1) = base_url (client w2)"
  shows "fst (exec e c w1) = fst (exec e c w2) \<and>
         (\<exists>req. sent (snd (exec e c w1)) = sent w1 @ [req] \<and>
                sent (snd (exec e c w2)) = sent w2 @ [req] \<and>
                headers req = []) \<and>
         client (snd (exec e c w1)) = client w1 \<and> client (snd (exec e c w2)) = client w2"
proof (cases c)
  case (GetPolls s l)
  with assms(2) show ?thesis
    by (simp add: get_polls_sent)
       (simp add: op_defs raise_for_status_def split: reply.splits)
next
  case (GetPoll a)
  with assms(2) show ?thesis
    by (simp add: get_poll_sent)
       (simp add: op_defs raise_for_status_def split: reply.splits)
next
  case (GetPollResults a)
  with assms(2) show ?thesis
    by (simp add: get_poll_results_sent)
       (simp add: op_defs raise_for_status_def split: reply.splits)
qed (use assms(1) in simp_all)

text \<open>
  \<open>get_poll_results(42)\<close> on a client without a token and on one with a token.
\<close>

theorem unauthenticated_ignores_token_witness:
  "unauthenticated_get (GetPollResults 42) \<and>
   base_url (client fresh) = base_url (client logged_in) \<and>
   token (client fresh) \<noteq> token (client logged_in) \<and>
   fst (exec (mock ok_empty) (GetPollResults 42) fresh) =
     fst (exec (mock ok_empty) (GetPollResults 42) logged_in) \<and>
   (\<exists>req. sent (snd (exec (mock ok_empty) (GetPollResults 42) fresh)) = sent fresh @ [req] \<and>
          sent (snd (exec (mock ok_empty) (GetPollResults 42) logged_in)) =
            sent logged_in @ [req] \<and>
          headers req = [])"
proof -
  have u: "unauthenticated_get (GetPollResults 42)"
    by simp
  have b: "base_url (client fresh) = base_url (client logged_in)"
    by (simp add: sample_defs)
  have t: "token (client fresh) \<noteq> token (client logged_in)"
    by (simp add: sample_defs)
  show ?thesis
    using u b t unauthenticated_ignores_token [OF u b, of "mock ok_empty"]
    by (simp only: simp_thms)
qed

end
